theory Spec2Isabelle
  imports Complex_Main "HOL-Library.Word"
begin

section \<open>Password Strength Lab: the strength estimator and its presentation helpers\<close>

text \<open>
  The repository holds \<^verbatim>\<open>client/src/App.tsx\<close> and three further versions of the same
  file (\<^verbatim>\<open>part_001\<close>, \<^verbatim>\<open>part_002\<close>, \<^verbatim>\<open>part_003\<close>). Functions of
  \<^verbatim>\<open>App.tsx\<close> keep their names; a function of another version that differs from it
  carries that version's suffix (\<open>_p1\<close>, \<open>_p3\<close>). \<^verbatim>\<open>formatDuration\<close> exists only in
  \<^verbatim>\<open>part_001\<close> and \<^verbatim>\<open>part_002\<close>; the unsuffixed definition is the one of
  \<^verbatim>\<open>part_002\<close>.

  A JavaScript \<^verbatim>\<open>number\<close> that the code computes with is a real here (finite doubles,
  idealised: no rounding error, no overflow); where the code tests for non-finite values
  the type \<open>number\<close> below adds them. Counts and table keys are integers. A JavaScript
  string that is tested character by character is a list of UTF-16 code units; message
  texts are \<open>string\<close>s.
\<close>

subsection \<open>Numbers and strings\<close>

text \<open>
  \<open>number\<close> is a JavaScript number where the code distinguishes the non-finite values:
  \<^verbatim>\<open>isFinite\<close> holds of \<open>Fin r\<close> only.
\<close>

datatype number = Fin real | Infinity | NegInfinity | NaN

text \<open>
  \<^verbatim>\<open>Math.round\<close> rounds to the nearest integer and a tie towards plus infinity:
  \<^verbatim>\<open>Math.round(2.5)\<close> is 3 and \<^verbatim>\<open>Math.round(-2.5)\<close> is -2.
\<close>

definition Math_round :: "real \<Rightarrow> real" where
  "Math_round x = of_int \<lfloor>x + 1 / 2\<rfloor>"

definition clamp :: "real \<Rightarrow> real \<Rightarrow> real \<Rightarrow> real" where
  "clamp n lo hi = min (max n lo) hi"

text \<open>\<^verbatim>\<open>const LOG2_10 = Math.LN10 / Math.LN2\<close>\<close>

definition LOG2_10 :: real where
  "LOG2_10 = ln 10 / ln 2"

text \<open>
  A password is a JavaScript string: a list of 16-bit code units, \<^verbatim>\<open>password.length\<close>
  its length. \<open>cu\<close> is the code unit of a Latin-1 character and \<open>js\<close> the string of a
  text of such characters.
\<close>

type_synonym code_unit = "16 word"
type_synonym jsstring = "code_unit list"

definition cu :: "char \<Rightarrow> code_unit" where
  "cu c = of_char c"

definition js :: "string \<Rightarrow> jsstring" where
  "js s = map cu s"

text \<open>
  \<^verbatim>\<open>a || b\<close> on a value that is a string or \<^verbatim>\<open>undefined\<close>: the left operand when it
  is truthy (a non-empty string), else the right one. \<^verbatim>\<open>xs[0]\<close> is \<^verbatim>\<open>undefined\<close> on
  the empty array.
\<close>

definition orElse :: "string option \<Rightarrow> string \<Rightarrow> string" where
  "orElse a b = (case a of None \<Rightarrow> b | Some s \<Rightarrow> if s = [] then b else s)"

definition at0 :: "string list \<Rightarrow> string option" where
  "at0 xs = (case xs of [] \<Rightarrow> None | x # _ \<Rightarrow> Some x)"

subsection \<open>Tier table and tier lookup\<close>

record Level =
  score :: int
  label :: string
  color :: string

definition LEVELS :: "Level list" where
  "LEVELS =
    [\<lparr>Level.score = 0, label = ''Very weak'', color = ''#ef4444''\<rparr>,
     \<lparr>Level.score = 1, label = ''Weak'', color = ''#f97316''\<rparr>,
     \<lparr>Level.score = 2, label = ''Okay'', color = ''#f59e0b''\<rparr>,
     \<lparr>Level.score = 3, label = ''Strong'', color = ''#10b981''\<rparr>,
     \<lparr>Level.score = 4, label = ''Excellent'', color = ''#14b8a6''\<rparr>]"

text \<open>
  \<^verbatim>\<open>LEVELS.find((level) => level.score === score) ?? LEVELS[0]\<close>:
  \<^verbatim>\<open>find\<close> yields the first matching entry or \<^verbatim>\<open>undefined\<close> (\<open>None\<close>), and
  \<^verbatim>\<open>??\<close> replaces \<^verbatim>\<open>undefined\<close> by the entry at index 0 of the non-empty table.
\<close>

definition strengthFromScore :: "int \<Rightarrow> Level" where
  "strengthFromScore s =
     (case find (\<lambda>level. Level.score level = s) LEVELS of
        Some level \<Rightarrow> level
      | None \<Rightarrow> LEVELS ! 0)"

subsection \<open>Variety label\<close>

text \<open>
  \<^verbatim>\<open>map[variety - 1] ?? 'no variety yet'\<close>: reading an array at an index outside
  \<open>0 \<dots> length - 1\<close> yields \<^verbatim>\<open>undefined\<close> in JavaScript, which \<^verbatim>\<open>??\<close> replaces by the
  fallback text. The range test is written out, since \<open>xs ! i\<close> says nothing there.
\<close>

definition varietyLabel :: "int \<Rightarrow> string" where
  "varietyLabel variety =
     (let names = [''just one type'', ''two types'', ''three types'', ''four types''];
          i = variety - 1
      in if 0 \<le> i \<and> i < int (length names) then names ! nat i else ''no variety yet'')"

subsection \<open>Character variety\<close>

text \<open>
  The four regular expressions \<^verbatim>\<open>/[a-z]/\<close>, \<^verbatim>\<open>/[A-Z]/\<close>, \<^verbatim>\<open>/[0-9]/\<close> and
  \<^verbatim>\<open>/[^a-zA-Z0-9]/\<close> are each one character class, given here as the predicate on a
  code unit; \<^verbatim>\<open>regex.test(password)\<close> holds when some code unit of the password is in
  the class.
\<close>

definition re_lower :: "code_unit \<Rightarrow> bool" where
  "re_lower c = (cu CHR ''a'' \<le> c \<and> c \<le> cu CHR ''z'')"

definition re_upper :: "code_unit \<Rightarrow> bool" where
  "re_upper c = (cu CHR ''A'' \<le> c \<and> c \<le> cu CHR ''Z'')"

definition re_digit :: "code_unit \<Rightarrow> bool" where
  "re_digit c = (cu CHR ''0'' \<le> c \<and> c \<le> cu CHR ''9'')"

definition re_other :: "code_unit \<Rightarrow> bool" where
  "re_other c = (\<not> (cu CHR ''a'' \<le> c \<and> c \<le> cu CHR ''z''
                    \<or> cu CHR ''A'' \<le> c \<and> c \<le> cu CHR ''Z''
                    \<or> cu CHR ''0'' \<le> c \<and> c \<le> cu CHR ''9''))"

definition test :: "(code_unit \<Rightarrow> bool) \<Rightarrow> jsstring \<Rightarrow> bool" where
  "test regex s = list_ex regex s"

text \<open>
  The expression every variant of \<^verbatim>\<open>scorePassword\<close> (and \<^verbatim>\<open>passwordFeedback\<close> of
  \<^verbatim>\<open>part_002\<close>) binds to its local \<^verbatim>\<open>variety\<close>: the four regular expressions in
  an array, filtered by \<^verbatim>\<open>(regex) => regex.test(password)\<close>, and the \<^verbatim>\<open>length\<close> of
  what is left.
\<close>

definition variety_count :: "jsstring \<Rightarrow> nat" where
  "variety_count password =
     length (filter (\<lambda>regex. test regex password) [re_lower, re_upper, re_digit, re_other])"

subsection \<open>Meter percentage\<close>

text \<open>
  \<^verbatim>\<open>App.tsx\<close>: window 2 to 18, ease-out quadratic, no rounding.
  \<^verbatim>\<open>Math.pow(1 - t, 2)\<close> is the square.
\<close>

definition meterPercentFromGuessesLog10 :: "real \<Rightarrow> real" where
  "meterPercentFromGuessesLog10 guessesLog10 =
     (let mn = 2; mx = 18;
          t = clamp ((guessesLog10 - mn) / (mx - mn)) 0 1;
          eased = 1 - (1 - t) ^ 2
      in eased * 100)"

text \<open>
  \<^verbatim>\<open>part_003\<close>: window 3 to 24, gamma 0.72, rounded, and with input clamped into 1 to
  100. \<open>curved_p3\<close> is the function's local \<^verbatim>\<open>curved\<close>, the eased value before it is
  scaled and rounded. \<^verbatim>\<open>Math.pow(t, gamma)\<close> on \<open>t\<close> between 0 and 1 is \<open>t powr gamma\<close>
  (0 at 0).
\<close>

definition curved_p3 :: "real \<Rightarrow> real" where
  "curved_p3 guessesLog10 =
     (let mn = 3; mx = 24;
          t = clamp ((guessesLog10 - mn) / (mx - mn)) 0 1;
          gamma = 72 / 100
      in t powr gamma)"

definition meterPercentFromGuessesLog10_p3 :: "real \<Rightarrow> bool \<Rightarrow> real" where
  "meterPercentFromGuessesLog10_p3 guessesLog10 hasInput =
     (let pct = Math_round (curved_p3 guessesLog10 * 100)
      in if \<not> hasInput then 0 else clamp pct 1 100)"

subsection \<open>Duration formatter\<close>

text \<open>
  \<^verbatim>\<open>formatDuration\<close> of \<^verbatim>\<open>part_002\<close>. The loop over \<^verbatim>\<open>units\<close> carries
  \<^verbatim>\<open>value\<close> and \<^verbatim>\<open>unit\<close>; \<^verbatim>\<open>break\<close> ends it with the entry's name, and an entry that
  does not break divides the value by its step. The guard
  \<^verbatim>\<open>!isFinite(seconds) || seconds <= 0\<close> holds of every non-finite number and of
  \<open>Fin s\<close> with \<open>s \<le> 0\<close>. The template literal converts \<^verbatim>\<open>rounded\<close> with
  JavaScript's number-to-string conversion, a parameter here.
\<close>

definition units :: "(real \<times> string) list" where
  "units = [(60, ''second''), (60, ''minute''), (24, ''hour''), (365, ''day''), (100, ''year'')]"

fun formatDuration_loop :: "(real \<times> string) list \<Rightarrow> real \<Rightarrow> string \<Rightarrow> real \<times> string" where
  "formatDuration_loop [] v unit = (v, unit)"
| "formatDuration_loop ((step, name) # rest) v unit =
     (if v < step then (v, name) else formatDuration_loop rest (v / step) name)"

definition formatDuration :: "(real \<Rightarrow> string) \<Rightarrow> number \<Rightarrow> string" where
  "formatDuration numberToString seconds =
     (case seconds of
        Fin s \<Rightarrow>
          if s \<le> 0 then ''almost instantly''
          else
            (let (v, unit) = formatDuration_loop units s ''second'';
                 rounded = (if v < 10 then Math_round (v * 10) / 10 else Math_round v);
                 suffix = (if rounded = 1 then '''' else ''s'')
             in numberToString rounded @ '' '' @ unit @ suffix)
      | _ \<Rightarrow> ''almost instantly'')"

text \<open>
  \<^verbatim>\<open>formatDuration(seconds, friendlyDisplay?)\<close> of \<^verbatim>\<open>part_001\<close> returns a truthy
  \<^verbatim>\<open>friendlyDisplay\<close> at once and is the function above otherwise.
\<close>

definition formatDuration_p1 :: "(real \<Rightarrow> string) \<Rightarrow> number \<Rightarrow> string option \<Rightarrow> string" where
  "formatDuration_p1 numberToString seconds friendlyDisplay =
     orElse friendlyDisplay (formatDuration numberToString seconds)"

text \<open>
  The formatter in the specification's words: divide by the ladder 60 (to minutes), 60 (to
  hours), 24 (to days), 365 (to years), stopping at the first unit whose value is below
  the next step; round to one decimal below 10 and to an integer otherwise; add the plural
  "s" unless the rounded value is 1; a non-finite or non-positive input is "almost
  instantly".
\<close>

definition spec_ladder :: "(real \<times> string) list" where
  "spec_ladder = [(60, ''minute''), (60, ''hour''), (24, ''day''), (365, ''year'')]"

fun spec_divide :: "(real \<times> string) list \<Rightarrow> real \<Rightarrow> string \<Rightarrow> real \<times> string" where
  "spec_divide [] v unit = (v, unit)"
| "spec_divide ((step, next_unit) # rest) v unit =
     (if v < step then (v, unit) else spec_divide rest (v / step) next_unit)"

definition spec_formatDuration :: "(real \<Rightarrow> string) \<Rightarrow> number \<Rightarrow> string" where
  "spec_formatDuration numberToString seconds =
     (case seconds of
        Fin s \<Rightarrow>
          if s \<le> 0 then ''almost instantly''
          else
            (let (v, unit) = spec_divide spec_ladder s ''second'';
                 rounded = (if v < 10 then Math_round (v * 10) / 10 else Math_round v)
             in numberToString rounded @ '' '' @ unit @ (if rounded = 1 then '''' else ''s''))
      | _ \<Rightarrow> ''almost instantly'')"

subsection \<open>The oracle's result and the estimate\<close>

text \<open>
  The fields of the result of \<^verbatim>\<open>zxcvbn(password)\<close> that the code reads. The estimator
  itself is a third-party package: every \<^verbatim>\<open>scorePassword\<close> takes it as a parameter.
\<close>

record Feedback =
  warning :: string
  suggestions :: "string list"

record 'a CrackTimes =
  offline_slow_hashing_1e4_per_second :: 'a
  offline_fast_hashing_1e10_per_second :: 'a

record ZXCVBNResult =
  guesses_log10 :: real
  crack_times_seconds :: "number CrackTimes"
  crack_times_display :: "string CrackTimes"
  score :: int
  feedback :: Feedback

text \<open>
  \<^verbatim>\<open>interface Estimate\<close>: five fields in \<^verbatim>\<open>part_001\<close> and \<^verbatim>\<open>part_002\<close>,
  and \<^verbatim>\<open>score\<close> and \<^verbatim>\<open>meterPercent\<close> after them in \<^verbatim>\<open>App.tsx\<close> and \<^verbatim>\<open>part_003\<close>.
\<close>

record Estimate_p1 =
  entropy :: real
  crackSeconds :: number
  crackTime :: string
  suggestion :: string
  variety :: nat

record Estimate = Estimate_p1 +
  score :: int
  meterPercent :: real

text \<open>
  \<^verbatim>\<open>scorePassword\<close> of \<^verbatim>\<open>App.tsx\<close>. \<^verbatim>\<open>Number(x)\<close> of a number and \<^verbatim>\<open>String(x)\<close> of
  a string are \<open>x\<close>; \<^verbatim>\<open>console.log(result)\<close> has no effect on the value returned.
\<close>

definition scorePassword :: "(jsstring \<Rightarrow> ZXCVBNResult) \<Rightarrow> jsstring \<Rightarrow> Estimate" where
  "scorePassword zxcvbn password =
     (let result = zxcvbn password;
          variety = variety_count password;
          entropy = max 0 (Math_round (guesses_log10 result * LOG2_10));
          crackSeconds = offline_fast_hashing_1e10_per_second (crack_times_seconds result);
          crackTime = offline_fast_hashing_1e10_per_second (crack_times_display result);
          feedback =
            (if length password = 0
             then ''Type a password to see how strong it is!''
             else orElse (Some (warning (ZXCVBNResult.feedback result)))
                    (orElse (at0 (suggestions (ZXCVBNResult.feedback result)))
                       ''Nice job! This looks strong.''))
      in \<lparr>entropy = entropy,
          crackSeconds = crackSeconds,
          crackTime = crackTime,
          suggestion = feedback,
          variety = variety,
          score = ZXCVBNResult.score result,
          meterPercent = meterPercentFromGuessesLog10 (guesses_log10 result)\<rparr>)"

text \<open>
  \<^verbatim>\<open>scorePassword\<close> of \<^verbatim>\<open>part_003\<close>: the slow-hashing scenario, and the meter with
  \<^verbatim>\<open>hasInput = password.length > 0\<close>.
\<close>

definition scorePassword_p3 :: "(jsstring \<Rightarrow> ZXCVBNResult) \<Rightarrow> jsstring \<Rightarrow> Estimate" where
  "scorePassword_p3 zxcvbn password =
     (let result = zxcvbn password;
          variety = variety_count password;
          entropy = max 0 (Math_round (guesses_log10 result * LOG2_10));
          crackSeconds = offline_slow_hashing_1e4_per_second (crack_times_seconds result);
          crackTime = offline_slow_hashing_1e4_per_second (crack_times_display result);
          feedback =
            (if length password = 0
             then ''Type a password to see how strong it is!''
             else orElse (Some (warning (ZXCVBNResult.feedback result)))
                    (orElse (at0 (suggestions (ZXCVBNResult.feedback result)))
                       ''Nice job! This looks strong.''))
      in \<lparr>entropy = entropy,
          crackSeconds = crackSeconds,
          crackTime = crackTime,
          suggestion = feedback,
          variety = variety,
          score = ZXCVBNResult.score result,
          meterPercent =
            meterPercentFromGuessesLog10_p3 (guesses_log10 result) (length password > 0)\<rparr>)"

text \<open>
  \<^verbatim>\<open>scorePassword\<close> of \<^verbatim>\<open>part_001\<close>: the empty password returns before the oracle is
  called; the factor is the decimal literal 3.32192809489.
\<close>

definition scorePassword_p1 ::
  "(real \<Rightarrow> string) \<Rightarrow> (jsstring \<Rightarrow> ZXCVBNResult) \<Rightarrow> jsstring \<Rightarrow> Estimate_p1" where
  "scorePassword_p1 numberToString zxcvbn password =
     (if password = [] then
        \<lparr>entropy = 0,
         crackSeconds = Fin 0,
         crackTime = ''Type a password to see how strong it is!'',
         suggestion = ''Type a password to see how strong it is!'',
         variety = 0\<rparr>
      else
        (let result = zxcvbn password;
             entropy = max 0 (Math_round (guesses_log10 result * (332192809489 / 100000000000)));
             crackSeconds = offline_fast_hashing_1e10_per_second (crack_times_seconds result);
             crackDisplay = offline_fast_hashing_1e10_per_second (crack_times_display result);
             variety = variety_count password;
             fallbackSuggestion =
               orElse (Some (warning (ZXCVBNResult.feedback result)))
                 (orElse (at0 (suggestions (ZXCVBNResult.feedback result)))
                    ''Passphrases with a mix of words and symbols are powerful.'')
         in \<lparr>entropy = entropy,
             crackSeconds = crackSeconds,
             crackTime = formatDuration_p1 numberToString crackSeconds (Some crackDisplay),
             suggestion = fallbackSuggestion,
             variety = variety\<rparr>))"

subsection \<open>The claims' words as definitions\<close>

text \<open>Rounding half away from zero, as the specification names the rounding of the entropy.\<close>

definition round_half_away_from_zero :: "real \<Rightarrow> real" where
  "round_half_away_from_zero x = sgn x * of_int \<lfloor>\<bar>x\<bar> + 1 / 2\<rfloor>"

text \<open>
  The four character classes of the specification; "other" is anything that is neither a
  letter (of a to z, A to Z) nor a digit. A class is satisfied by a password that has a
  code unit in it.
\<close>

datatype char_class = Lowercase | Uppercase | Digit | Other

definition is_letter :: "code_unit \<Rightarrow> bool" where
  "is_letter c =
     (cu CHR ''a'' \<le> c \<and> c \<le> cu CHR ''z'' \<or> cu CHR ''A'' \<le> c \<and> c \<le> cu CHR ''Z'')"

definition is_digit :: "code_unit \<Rightarrow> bool" where
  "is_digit c = (cu CHR ''0'' \<le> c \<and> c \<le> cu CHR ''9'')"

fun in_class :: "char_class \<Rightarrow> code_unit \<Rightarrow> bool" where
  "in_class Lowercase c = (cu CHR ''a'' \<le> c \<and> c \<le> cu CHR ''z'')"
| "in_class Uppercase c = (cu CHR ''A'' \<le> c \<and> c \<le> cu CHR ''Z'')"
| "in_class Digit c = is_digit c"
| "in_class Other c = (\<not> is_letter c \<and> \<not> is_digit c)"

definition satisfied :: "char_class \<Rightarrow> jsstring \<Rightarrow> bool" where
  "satisfied cls p = (\<exists>c \<in> set p. in_class cls c)"

subsection \<open>Sample oracle results\<close>

text \<open>
  Results of the shape the oracle returns, for evaluating the estimator at concrete
  inputs: the result for the empty password (one guess, the default suggestions), one
  that reports ten to the tenth guesses and neither warning nor suggestion, one with a
  suggestion only, and one with a warning and a suggestion.
\<close>

definition result_empty :: ZXCVBNResult where
  "result_empty =
     \<lparr>guesses_log10 = 0,
      crack_times_seconds =
        \<lparr>offline_slow_hashing_1e4_per_second = Fin (1 / 10000),
         offline_fast_hashing_1e10_per_second = Fin (1 / 10000000000)\<rparr>,
      crack_times_display =
        \<lparr>offline_slow_hashing_1e4_per_second = ''less than a second'',
         offline_fast_hashing_1e10_per_second = ''less than a second''\<rparr>,
      score = 0,
      feedback =
        \<lparr>warning = '''',
         suggestions =
           [''Use a few words, avoid common phrases'',
            ''No need for symbols, digits, or uppercase letters'']\<rparr>\<rparr>"

definition result_1e10 :: ZXCVBNResult where
  "result_1e10 =
     \<lparr>guesses_log10 = 10,
      crack_times_seconds =
        \<lparr>offline_slow_hashing_1e4_per_second = Fin 1000000,
         offline_fast_hashing_1e10_per_second = Fin 1\<rparr>,
      crack_times_display =
        \<lparr>offline_slow_hashing_1e4_per_second = ''12 days'',
         offline_fast_hashing_1e10_per_second = ''1 second''\<rparr>,
      score = 3,
      feedback = \<lparr>warning = '''', suggestions = []\<rparr>\<rparr>"



section \<open>Properties\<close>

subsection \<open>Tier classifier\<close>

lemma strengthFromScore_no_match:
  "s \<notin> {0, 1, 2, 3, 4} \<Longrightarrow> strengthFromScore s = LEVELS ! 0"
  by (simp add: strengthFromScore_def LEVELS_def)

text \<open>
  Claim C8. The tier classifier is total: score 0 gives the first (weakest) entry of the
  five-entry table, score 4 the last (strongest) entry, and every integer that matches no
  entry of the table, 7 for one, gives the weakest entry.
\<close>

theorem C8_strengthFromScore_total:
  "length LEVELS = 5
   \<and> strengthFromScore 0 = hd LEVELS
   \<and> hd LEVELS = \<lparr>Level.score = 0, label = ''Very weak'', color = ''#ef4444''\<rparr>
   \<and> strengthFromScore 4 = last LEVELS
   \<and> last LEVELS = \<lparr>Level.score = 4, label = ''Excellent'', color = ''#14b8a6''\<rparr>
   \<and> strengthFromScore 7 = hd LEVELS
   \<and> (\<forall>s. s \<notin> set (map Level.score LEVELS) \<longrightarrow> strengthFromScore s = hd LEVELS)"
proof -
  have tbl: "set (map Level.score LEVELS) = {0, 1, 2, 3, 4}"
    by (simp add: LEVELS_def)
  have h: "hd LEVELS = LEVELS ! 0"
    by (simp add: LEVELS_def)
  have "strengthFromScore 0 = hd LEVELS"
    by (simp add: strengthFromScore_def LEVELS_def)
  moreover have "strengthFromScore 4 = last LEVELS"
    by (simp add: strengthFromScore_def LEVELS_def)
  moreover have "strengthFromScore 7 = hd LEVELS"
    using strengthFromScore_no_match [of 7] h by simp
  moreover have "\<forall>s. s \<notin> set (map Level.score LEVELS) \<longrightarrow> strengthFromScore s = hd LEVELS"
    using strengthFromScore_no_match tbl h by simp
  ultimately show ?thesis
    by (simp add: LEVELS_def)
qed

theorem C8_strengthFromScore_total_witness:
  "(-3::int) \<notin> set (map Level.score LEVELS)
   \<and> strengthFromScore (-3) = \<lparr>Level.score = 0, label = ''Very weak'', color = ''#ef4444''\<rparr>"
proof -
  have n: "(-3::int) \<notin> set (map Level.score LEVELS)"
    by (simp add: LEVELS_def)
  from C8_strengthFromScore_total have "strengthFromScore (-3) = hd LEVELS"
    using n by blast
  moreover from C8_strengthFromScore_total
  have "hd LEVELS = \<lparr>Level.score = 0, label = ''Very weak'', color = ''#ef4444''\<rparr>"
    by blast
  ultimately show ?thesis using n by simp
qed

subsection \<open>Variety label\<close>

text \<open>
  Claim C9. \<open>varietyLabel\<close> is total over the integers: 1, 2, 3 and 4 give "just one
  type", "two types", "three types" and "four types", 0 gives "no variety yet", and every
  input below 0 or above 4 gives "no variety yet" as well.
\<close>

theorem C9_varietyLabel_total:
  "varietyLabel 1 = ''just one type''
   \<and> varietyLabel 2 = ''two types''
   \<and> varietyLabel 3 = ''three types''
   \<and> varietyLabel 4 = ''four types''
   \<and> varietyLabel 0 = ''no variety yet''
   \<and> (\<forall>v. v < 0 \<or> 4 < v \<longrightarrow> varietyLabel v = ''no variety yet'')"
  by (simp add: varietyLabel_def Let_def)

theorem C9_varietyLabel_total_witness:
  "((-2::int) < 0 \<or> 4 < (-2::int)) \<and> varietyLabel (-2) = ''no variety yet''
   \<and> ((9::int) < 0 \<or> 4 < (9::int)) \<and> varietyLabel 9 = ''no variety yet''"
  using C9_varietyLabel_total by simp

subsection \<open>Character variety\<close>

lemma test_satisfied:
  "test re_lower p = satisfied Lowercase p"
  "test re_upper p = satisfied Uppercase p"
  "test re_digit p = satisfied Digit p"
  "test re_other p = satisfied Other p"
  by (auto simp: test_def satisfied_def list_ex_iff re_lower_def re_upper_def re_digit_def
      re_other_def is_letter_def is_digit_def)

lemma variety_count_sum:
  "variety_count p = of_bool (test re_lower p) + of_bool (test re_upper p)
                   + of_bool (test re_digit p) + of_bool (test re_other p)"
  by (simp add: variety_count_def)

lemma card_char_classes:
  "card {cls. P cls}
   = of_bool (P Lowercase) + of_bool (P Uppercase) + of_bool (P Digit) + of_bool (P Other)"
proof -
  have "{cls. P cls} =
      (if P Lowercase then {Lowercase} else {}) \<union> (if P Uppercase then {Uppercase} else {})
      \<union> (if P Digit then {Digit} else {}) \<union> (if P Other then {Other} else {})"
    (is "?L = ?R")
  proof (rule set_eqI)
    fix cls show "cls \<in> ?L \<longleftrightarrow> cls \<in> ?R"
      by (cases cls) simp_all
  qed
  then show ?thesis by simp
qed

lemma variety_scorePassword: "variety (scorePassword zxcvbn p) = variety_count p"
  by (simp add: scorePassword_def Let_def)

lemma variety_scorePassword_p3: "variety (scorePassword_p3 zxcvbn p) = variety_count p"
  by (simp add: scorePassword_p3_def Let_def)

lemma variety_count_Nil: "variety_count [] = 0"
  by (simp add: variety_count_def test_def)

lemma variety_scorePassword_p1: "variety (scorePassword_p1 f zxcvbn p) = variety_count p"
  by (simp add: scorePassword_p1_def Let_def variety_count_Nil)

text \<open>
  Claim C7. For every password, the variety that \<open>scorePassword\<close> returns is the number
  of satisfied character classes among lowercase, uppercase, digit and other, each class
  counting once, and lies between 0 and 4.
\<close>

theorem C7_variety_counts_classes:
  "variety (scorePassword zxcvbn p) = card {cls. satisfied cls p}
   \<and> variety (scorePassword zxcvbn p)
       = of_bool (satisfied Lowercase p) + of_bool (satisfied Uppercase p)
         + of_bool (satisfied Digit p) + of_bool (satisfied Other p)
   \<and> variety (scorePassword zxcvbn p) \<le> 4"
proof -
  have s: "variety (scorePassword zxcvbn p)
       = of_bool (satisfied Lowercase p) + of_bool (satisfied Uppercase p)
         + of_bool (satisfied Digit p) + of_bool (satisfied Other p)"
    by (simp only: variety_scorePassword variety_count_sum test_satisfied)
  moreover have "variety (scorePassword zxcvbn p) = card {cls. satisfied cls p}"
    by (simp only: s card_char_classes)
  moreover have "variety (scorePassword zxcvbn p) \<le> 4"
    unfolding s by (simp add: of_bool_def)
  ultimately show ?thesis by blast
qed

theorem C7_variety_counts_classes_witness:
  "card {cls. satisfied cls (js ''password123'')} = 2
   \<and> card {cls. satisfied cls (js ''7*JGiULWFJtydsK*VdpwtGJw'')} = 4
   \<and> card {cls. satisfied cls []} = 0"
proof -
  have v: "variety_count (js ''password123'') = 2"
    "variety_count (js ''7*JGiULWFJtydsK*VdpwtGJw'') = 4"
    "variety_count [] = 0"
    by (simp_all add: variety_count_def test_def js_def cu_def re_lower_def re_upper_def
        re_digit_def re_other_def)
  show ?thesis
    using C7_variety_counts_classes [of "\<lambda>_. result_1e10" "js ''password123''"]
      C7_variety_counts_classes [of "\<lambda>_. result_1e10" "js ''7*JGiULWFJtydsK*VdpwtGJw''"]
      C7_variety_counts_classes [of "\<lambda>_. result_1e10" "[]"]
    by (simp only: variety_scorePassword v)
qed

lemma test_append: "test regex p \<Longrightarrow> test regex (p @ q)"
  by (simp add: test_def)

lemma variety_count_append: "variety_count p \<le> variety_count (p @ q)"
  unfolding variety_count_sum
  by (intro add_mono) (auto simp: test_append)

text \<open>
  Claim C10. Appending to a password never lowers its variety: one more code unit \<open>c\<close>,
  or any further text \<open>q\<close> (a character outside the basic plane is two code units),
  leaves each class test that held true. The oracle plays no part: the two calls may
  even use different ones.
\<close>

theorem C10_variety_monotone:
  "variety (scorePassword zxcvbn p) \<le> variety (scorePassword zxcvbn' (p @ [c]))
   \<and> variety (scorePassword zxcvbn p) \<le> variety (scorePassword zxcvbn' (p @ q))
   \<and> variety_count p \<le> variety_count (p @ [c])"
  by (simp only: variety_scorePassword variety_count_append)

subsection \<open>Meter percentage\<close>

lemma clamp_mono: "x \<le> y \<Longrightarrow> clamp x lo hi \<le> clamp y lo hi"
  by (auto simp: clamp_def min_def max_def)

lemma clamp_bounds: "lo \<le> hi \<Longrightarrow> lo \<le> clamp x lo hi \<and> clamp x lo hi \<le> hi"
  by (auto simp: clamp_def min_def max_def)

lemma Math_round_mono: "x \<le> y \<Longrightarrow> Math_round x \<le> Math_round y"
  by (simp add: Math_round_def floor_mono)

lemma Math_round_Ints: "Math_round x \<in> \<int>"
  by (simp add: Math_round_def)

lemma meter_mono:
  assumes "x \<le> y"
  shows "meterPercentFromGuessesLog10 x \<le> meterPercentFromGuessesLog10 y"
proof -
  define s where "s = clamp ((x - 2) / (18 - 2)) 0 1"
  define t where "t = clamp ((y - 2) / (18 - 2)) 0 1"
  have st: "s \<le> t" unfolding s_def t_def
    by (rule clamp_mono) (use assms in \<open>simp add: divide_right_mono\<close>)
  have "0 \<le> 1 - t" "1 - t \<le> 1 - s"
    using clamp_bounds [of 0 1 "(y - 2) / (18 - 2)"] st by (simp_all add: t_def)
  then have "(1 - t) ^ 2 \<le> (1 - s) ^ 2"
    by (rule power_mono [rotated])
  then show ?thesis
    by (simp add: meterPercentFromGuessesLog10_def Let_def s_def t_def)
qed

lemma meter_floor: "meterPercentFromGuessesLog10 2 = 0"
  by (simp add: meterPercentFromGuessesLog10_def clamp_def)

lemma meter_ceiling: "meterPercentFromGuessesLog10 18 = 100"
  by (simp add: meterPercentFromGuessesLog10_def clamp_def)

lemma meter_range: "0 \<le> meterPercentFromGuessesLog10 g \<and> meterPercentFromGuessesLog10 g \<le> 100"
proof -
  define t where "t = clamp ((g - 2) / 16) 0 1"
  have t: "0 \<le> t" "t \<le> 1"
    using clamp_bounds [of 0 1 "(g - 2) / 16"] by (simp_all add: t_def)
  then have "0 \<le> 1 - t" "1 - t \<le> 1" by simp_all
  then have "(1 - t) ^ 2 \<le> 1" "0 \<le> (1 - t) ^ 2"
    by (simp_all add: power_le_one)
  then show ?thesis
    by (simp add: meterPercentFromGuessesLog10_def Let_def t_def [symmetric])
qed

lemma meter_zero_iff: "meterPercentFromGuessesLog10 g = 0 \<longleftrightarrow> g \<le> 2"
proof -
  define t where "t = clamp ((g - 2) / 16) 0 1"
  have t: "0 \<le> t" "t \<le> 1"
    using clamp_bounds [of 0 1 "(g - 2) / 16"] by (simp_all add: t_def)
  have "meterPercentFromGuessesLog10 g = 0 \<longleftrightarrow> (1 - t) ^ 2 = 1"
    by (simp add: meterPercentFromGuessesLog10_def Let_def t_def [symmetric])
  also have "\<dots> \<longleftrightarrow> t = 0"
    using t by (auto simp: power2_eq_1_iff)
  also have "\<dots> \<longleftrightarrow> g \<le> 2"
    by (auto simp: t_def clamp_def min_def max_def)
  finally show ?thesis .
qed

lemma curved_mono:
  assumes "x \<le> y"
  shows "curved_p3 x \<le> curved_p3 y"
proof -
  have "clamp ((x - 3) / (24 - 3)) 0 1 \<le> clamp ((y - 3) / (24 - 3)) 0 1"
    by (rule clamp_mono) (use assms in \<open>simp add: divide_right_mono\<close>)
  then show ?thesis
    using clamp_bounds [of 0 1 "(x - 3) / (24 - 3)"]
    by (simp add: curved_p3_def Let_def powr_mono2)
qed

lemma meter_p3_mono:
  "x \<le> y \<Longrightarrow> meterPercentFromGuessesLog10_p3 x True \<le> meterPercentFromGuessesLog10_p3 y True"
  using curved_mono [of x y]
  by (simp add: meterPercentFromGuessesLog10_p3_def Let_def clamp_mono Math_round_mono)

lemma curved_floor: "curved_p3 3 = 0"
  by (simp add: curved_p3_def clamp_def)

lemma meter_p3_floor: "meterPercentFromGuessesLog10_p3 3 True = 1"
  by (simp add: meterPercentFromGuessesLog10_p3_def curved_floor clamp_def Math_round_def)

lemma meter_p3_ceiling: "meterPercentFromGuessesLog10_p3 24 True = 100"
  by (simp add: meterPercentFromGuessesLog10_p3_def curved_p3_def clamp_def Math_round_def)

lemma meter_p3_no_input: "meterPercentFromGuessesLog10_p3 g False = 0"
  by (simp add: meterPercentFromGuessesLog10_p3_def)

lemma clamp_Ints: "n \<in> \<int> \<Longrightarrow> lo \<in> \<int> \<Longrightarrow> hi \<in> \<int> \<Longrightarrow> clamp n lo hi \<in> \<int>"
  by (auto simp: clamp_def min_def max_def)

lemma meter_p3_Ints: "meterPercentFromGuessesLog10_p3 g hasInput \<in> \<int>"
  by (simp add: meterPercentFromGuessesLog10_p3_def Let_def clamp_Ints Math_round_Ints)

lemma meter_p3_range:
  "0 \<le> meterPercentFromGuessesLog10_p3 g hasInput \<and> meterPercentFromGuessesLog10_p3 g hasInput \<le> 100"
  using clamp_bounds [of 1 100 "Math_round (curved_p3 g * 100)"]
  by (simp add: meterPercentFromGuessesLog10_p3_def Let_def)

lemma meter_p3_with_input:
  "meterPercentFromGuessesLog10_p3 g True = clamp (Math_round (curved_p3 g * 100)) 1 100
   \<and> 1 \<le> meterPercentFromGuessesLog10_p3 g True"
  using clamp_bounds [of 1 100 "Math_round (curved_p3 g * 100)"]
  by (simp add: meterPercentFromGuessesLog10_p3_def Let_def)

lemma meter_at_3: "meterPercentFromGuessesLog10 3 = 775 / 64"
  by (simp add: meterPercentFromGuessesLog10_def clamp_def power2_eq_square)

lemma meter_at_5: "meterPercentFromGuessesLog10 5 = 2175 / 64"
  by (simp add: meterPercentFromGuessesLog10_def clamp_def power2_eq_square)

lemma meter_at_10: "meterPercentFromGuessesLog10 10 = 75"
  by (simp add: meterPercentFromGuessesLog10_def clamp_def power2_eq_square)

lemma not_Ints_775_64: "(775 / 64 :: real) \<notin> \<int>"
proof
  assume "(775 / 64 :: real) \<in> \<int>"
  then obtain k :: int where k: "(775 / 64 :: real) = of_int k"
    by (auto elim: Ints_cases)
  then have "(12::real) < of_int k" "of_int k < (13::real)" by simp_all
  then have "12 < k" "k < 13" by linarith+
  then show False by simp
qed

text \<open>
  Claim C2. With input present the meter percentage never decreases as \<open>guessesLog10\<close>
  grows; the window floor gives 0 before rounding and the window ceiling gives 100. Both
  versions of the curve: window 2 to 18 with the ease-out quadratic, which is not rounded
  at all, and window 3 to 24 with the gamma curve, whose value before rounding is
  \<open>curved_p3 g * 100\<close>.
\<close>

theorem C2_meter_monotone:
  "(\<forall>x y. x \<le> y \<longrightarrow> meterPercentFromGuessesLog10 x \<le> meterPercentFromGuessesLog10 y)
   \<and> meterPercentFromGuessesLog10 2 = 0
   \<and> meterPercentFromGuessesLog10 18 = 100
   \<and> (\<forall>x y. x \<le> y \<longrightarrow>
         meterPercentFromGuessesLog10_p3 x True \<le> meterPercentFromGuessesLog10_p3 y True)
   \<and> curved_p3 3 * 100 = 0
   \<and> meterPercentFromGuessesLog10_p3 24 True = 100"
  using meter_mono meter_p3_mono
  by (simp add: meter_floor meter_ceiling curved_floor meter_p3_ceiling)

theorem C2_meter_monotone_witness:
  "(5::real) \<le> 10
   \<and> meterPercentFromGuessesLog10 5 \<le> meterPercentFromGuessesLog10 10
   \<and> meterPercentFromGuessesLog10 5 = 2175 / 64
   \<and> meterPercentFromGuessesLog10 10 = 75
   \<and> meterPercentFromGuessesLog10_p3 3 True \<le> meterPercentFromGuessesLog10_p3 24 True
   \<and> meterPercentFromGuessesLog10_p3 3 True = 1"
proof -
  have le: "(5::real) \<le> 10" "(3::real) \<le> 24" by simp_all
  have "meterPercentFromGuessesLog10 5 \<le> meterPercentFromGuessesLog10 10"
    using C2_meter_monotone le(1) by blast
  moreover have "meterPercentFromGuessesLog10_p3 3 True \<le> meterPercentFromGuessesLog10_p3 24 True"
    using C2_meter_monotone le(2) by blast
  ultimately show ?thesis
    by (simp add: meter_at_5 meter_at_10 meter_p3_floor)
qed

text \<open>
  Claim C3 says the meter percentage is an integer between 0 and 100, the eased value
  rounded and then clamped into 0 to 100. At \<open>guessesLog10 = 3\<close> the curve of
  \<^verbatim>\<open>App.tsx\<close>, which does not round, returns 12.109375; and the curve of
  \<^verbatim>\<open>part_003\<close>, at its window floor with input present, returns 1 where rounding and
  clamping into 0 to 100 gives 0.
\<close>

theorem C3_meter_not_integer_counterexample:
  "meterPercentFromGuessesLog10 3 = 775 / 64
   \<and> meterPercentFromGuessesLog10 3 \<notin> \<int>
   \<and> meterPercentFromGuessesLog10_p3 3 True = 1
   \<and> clamp (Math_round (curved_p3 3 * 100)) 0 100 = 0"
  using not_Ints_775_64
  by (simp add: meter_at_3 meter_p3_floor curved_floor clamp_def Math_round_def)

text \<open>
  Claim C3, amended. For every \<open>guessesLog10\<close> the meter percentage lies between 0 and
  100. The curve of \<^verbatim>\<open>part_003\<close> returns an integer: 0 without input, and with input
  the eased value times 100, rounded to the nearest integer and clamped into 1 to 100.
  The curve of \<^verbatim>\<open>App.tsx\<close> returns the eased value times 100 unrounded.
\<close>

theorem C3_meter_range:
  "0 \<le> meterPercentFromGuessesLog10 g \<and> meterPercentFromGuessesLog10 g \<le> 100
   \<and> meterPercentFromGuessesLog10_p3 g hasInput \<in> \<int>
   \<and> 0 \<le> meterPercentFromGuessesLog10_p3 g hasInput
   \<and> meterPercentFromGuessesLog10_p3 g hasInput \<le> 100
   \<and> meterPercentFromGuessesLog10_p3 g False = 0
   \<and> meterPercentFromGuessesLog10_p3 g True = clamp (Math_round (curved_p3 g * 100)) 1 100
   \<and> 1 \<le> meterPercentFromGuessesLog10_p3 g True"
  using meter_range [of g] meter_p3_range [of g hasInput] meter_p3_with_input [of g]
  by (simp add: meter_p3_Ints meter_p3_no_input)

subsection \<open>Entropy\<close>

lemma LOG2_10_log: "LOG2_10 = log 2 10"
  by (simp add: LOG2_10_def log_def)

lemma max_round_half_away:
  "max 0 (Math_round x) = max 0 (round_half_away_from_zero x)"
proof (cases "0 \<le> x")
  case True
  then show ?thesis
    by (cases "x = 0") (simp_all add: Math_round_def round_half_away_from_zero_def sgn_if)
next
  case False
  then have "x + 1 / 2 < 1" by simp
  then have "\<lfloor>x + 1 / 2\<rfloor> \<le> 0" unfolding floor_le_iff by simp
  then have "real_of_int \<lfloor>x + 1 / 2\<rfloor> \<le> 0" by (simp only: of_int_le_0_iff)
  then have l: "max 0 (Math_round x) = 0"
    unfolding Math_round_def by (rule max_absorb1)
  have "0 \<le> \<lfloor>\<bar>x\<bar> + 1 / 2\<rfloor>" by simp
  then have "0 \<le> real_of_int \<lfloor>\<bar>x\<bar> + 1 / 2\<rfloor>" by linarith
  with False have "round_half_away_from_zero x \<le> 0"
    by (simp add: round_half_away_from_zero_def sgn_if)
  then have "max 0 (round_half_away_from_zero x) = 0"
    by (rule max_absorb1)
  with l show ?thesis by simp
qed

lemma max_round_Ints: "max 0 (Math_round x) \<in> \<int>"
  by (simp add: max_def Math_round_Ints)

lemma max_round_zero_iff: "max 0 (Math_round x) = 0 \<longleftrightarrow> x < 1 / 2"
proof -
  have "max 0 (Math_round x) = 0 \<longleftrightarrow> Math_round x \<le> 0"
    by (auto simp: max_def)
  also have "\<dots> \<longleftrightarrow> \<lfloor>x + 1 / 2\<rfloor> \<le> 0"
    by (simp only: Math_round_def of_int_le_0_iff)
  also have "\<dots> \<longleftrightarrow> x < 1 / 2"
    unfolding floor_le_iff by auto
  finally show ?thesis .
qed

lemma entropy_scorePassword:
  "entropy (scorePassword zxcvbn p) = max 0 (Math_round (guesses_log10 (zxcvbn p) * LOG2_10))"
  by (simp add: scorePassword_def Let_def)

lemma entropy_scorePassword_p3:
  "entropy (scorePassword_p3 zxcvbn p) = max 0 (Math_round (guesses_log10 (zxcvbn p) * LOG2_10))"
  by (simp add: scorePassword_p3_def Let_def)

lemma entropy_scorePassword_p1:
  "p \<noteq> [] \<Longrightarrow> entropy (scorePassword_p1 f zxcvbn p)
     = max 0 (Math_round (guesses_log10 (zxcvbn p) * (332192809489 / 100000000000)))"
  by (simp add: scorePassword_p1_def Let_def)

lemma LOG2_10_bounds: "13 / 4 \<le> LOG2_10 \<and> LOG2_10 < 67 / 20"
proof -
  have ln2: "0 < ln (2::real)" by simp
  have p2: "ln ((2::real) ^ n) = real n * ln 2" for n
    by (rule ln_realpow)
  have p10: "ln ((10::real) ^ n) = real n * ln 10" for n
    by (rule ln_realpow)
  have "ln ((2::real) ^ 13) \<le> ln (10 ^ 4)"
    by (subst ln_le_cancel_iff) simp_all
  then have a: "13 * ln (2::real) \<le> 4 * ln 10"
    by (simp only: p2 p10)
  have "ln ((10::real) ^ 20) < ln (2 ^ 67)"
    by (subst ln_less_cancel_iff) simp_all
  then have b: "20 * ln (10::real) < 67 * ln 2"
    by (simp only: p2 p10)
  from a ln2 have "13 / 4 \<le> ln 10 / ln (2::real)"
    by (simp add: pos_le_divide_eq)
  moreover from b ln2 have "ln 10 / ln (2::real) < 67 / 20"
    by (simp add: pos_divide_less_eq)
  ultimately show ?thesis by (simp add: LOG2_10_def)
qed

lemma entropy_at_10: "max 0 (Math_round (10 * LOG2_10)) = 33"
proof -
  have "\<lfloor>10 * LOG2_10 + 1 / 2\<rfloor> = 33"
    using LOG2_10_bounds by (intro floor_unique) simp_all
  then show ?thesis by (simp add: Math_round_def)
qed

text \<open>
  Claim C4. For every password (a non-empty one in particular) the entropy that
  \<open>scorePassword\<close> returns is the oracle's \<open>guesses_log10\<close> times the base-2 logarithm
  of 10, rounded half away from zero and floored at 0; it is a non-negative integer.
  \<^verbatim>\<open>Math.round\<close> rounds a tie upwards instead, which differs from rounding half away
  from zero on negative values only, and those the floor at 0 absorbs. \<^verbatim>\<open>part_003\<close> has
  the same line. \<^verbatim>\<open>part_001\<close> writes the factor as the decimal 3.32192809489, the
  logarithm to twelve digits, and is stated with that literal.
\<close>

theorem C4_entropy_bits:
  "entropy (scorePassword zxcvbn p)
     = max 0 (round_half_away_from_zero (guesses_log10 (zxcvbn p) * log 2 10))
   \<and> entropy (scorePassword zxcvbn p) \<in> \<int>
   \<and> 0 \<le> entropy (scorePassword zxcvbn p)
   \<and> entropy (scorePassword_p3 zxcvbn p) = entropy (scorePassword zxcvbn p)
   \<and> (p \<noteq> [] \<longrightarrow>
        entropy (scorePassword_p1 numberToString zxcvbn p)
          = max 0 (round_half_away_from_zero
                     (guesses_log10 (zxcvbn p) * (332192809489 / 100000000000)))
        \<and> entropy (scorePassword_p1 numberToString zxcvbn p) \<in> \<int>
        \<and> 0 \<le> entropy (scorePassword_p1 numberToString zxcvbn p))"
proof -
  have "entropy (scorePassword zxcvbn p)
     = max 0 (round_half_away_from_zero (guesses_log10 (zxcvbn p) * log 2 10))"
    by (simp only: entropy_scorePassword max_round_half_away LOG2_10_log)
  moreover have "entropy (scorePassword zxcvbn p) \<in> \<int>"
    by (simp only: entropy_scorePassword max_round_Ints)
  moreover have "0 \<le> entropy (scorePassword zxcvbn p)"
    by (simp add: entropy_scorePassword)
  moreover have "entropy (scorePassword_p3 zxcvbn p) = entropy (scorePassword zxcvbn p)"
    by (simp only: entropy_scorePassword entropy_scorePassword_p3)
  moreover have "p \<noteq> [] \<longrightarrow>
        entropy (scorePassword_p1 numberToString zxcvbn p)
          = max 0 (round_half_away_from_zero
                     (guesses_log10 (zxcvbn p) * (332192809489 / 100000000000)))
        \<and> entropy (scorePassword_p1 numberToString zxcvbn p) \<in> \<int>
        \<and> 0 \<le> entropy (scorePassword_p1 numberToString zxcvbn p)"
    using max_round_Ints [of "guesses_log10 (zxcvbn p) * (332192809489 / 100000000000)"]
    by (simp add: entropy_scorePassword_p1 max_round_half_away [symmetric])
  ultimately show ?thesis by blast
qed

theorem C4_entropy_bits_witness:
  "js ''password123'' \<noteq> []
   \<and> entropy (scorePassword (\<lambda>_. result_1e10) (js ''password123'')) = 33
   \<and> max 0 (round_half_away_from_zero (10 * log 2 10)) = 33
   \<and> entropy (scorePassword_p1 (\<lambda>_. ''?'') (\<lambda>_. result_1e10) (js ''password123''))
       = max 0 (round_half_away_from_zero (10 * (332192809489 / 100000000000)))"
proof -
  have ne: "js ''password123'' \<noteq> []"
    by (simp add: js_def)
  have e: "entropy (scorePassword (\<lambda>_. result_1e10) (js ''password123'')) = 33"
    by (simp add: entropy_scorePassword result_1e10_def entropy_at_10)
  show ?thesis
    using C4_entropy_bits [of "\<lambda>_. result_1e10" "js ''password123''" "\<lambda>_. ''?''"] ne e
    by (simp add: result_1e10_def)
qed

subsection \<open>The empty password\<close>

lemma suggestion_empty:
  "suggestion (scorePassword zxcvbn []) = ''Type a password to see how strong it is!''"
  "suggestion (scorePassword_p3 zxcvbn []) = ''Type a password to see how strong it is!''"
  "suggestion (scorePassword_p1 f zxcvbn []) = ''Type a password to see how strong it is!''"
  by (simp_all add: scorePassword_def scorePassword_p3_def scorePassword_p1_def Let_def)

lemma meterPercent_scorePassword:
  "meterPercent (scorePassword zxcvbn p) = meterPercentFromGuessesLog10 (guesses_log10 (zxcvbn p))"
  by (simp add: scorePassword_def Let_def)

lemma meterPercent_scorePassword_p3:
  "meterPercent (scorePassword_p3 zxcvbn p)
     = meterPercentFromGuessesLog10_p3 (guesses_log10 (zxcvbn p)) (p \<noteq> [])"
  by (simp add: scorePassword_p3_def Let_def)

text \<open>
  Claim C1. For the empty password \<open>scorePassword\<close> returns entropy 0, meter percentage
  0, variety 0 and the suggestion "Type a password to see how strong it is!". Variety and
  suggestion do not depend on the oracle. \<^verbatim>\<open>App.tsx\<close> computes entropy and meter
  percentage from the \<open>guesses_log10\<close> that the oracle returns for the empty password;
  the oracle counts one guess for it, so that \<open>guesses_log10\<close> is 0, which is the
  hypothesis. \<^verbatim>\<open>part_003\<close> returns the same four values, and \<^verbatim>\<open>part_001\<close>, whose
  estimate has no meter percentage, the other three.
\<close>

theorem C1_empty_password:
  assumes "guesses_log10 (zxcvbn []) = 0"
  shows "entropy (scorePassword zxcvbn []) = 0
   \<and> meterPercent (scorePassword zxcvbn []) = 0
   \<and> variety (scorePassword zxcvbn []) = 0
   \<and> suggestion (scorePassword zxcvbn []) = ''Type a password to see how strong it is!''
   \<and> entropy (scorePassword_p3 zxcvbn []) = 0
   \<and> meterPercent (scorePassword_p3 zxcvbn []) = 0
   \<and> variety (scorePassword_p3 zxcvbn []) = 0
   \<and> suggestion (scorePassword_p3 zxcvbn []) = ''Type a password to see how strong it is!''
   \<and> entropy (scorePassword_p1 numberToString zxcvbn []) = 0
   \<and> variety (scorePassword_p1 numberToString zxcvbn []) = 0
   \<and> suggestion (scorePassword_p1 numberToString zxcvbn [])
       = ''Type a password to see how strong it is!''"
proof -
  have v: "variety (scorePassword zxcvbn []) = 0" "variety (scorePassword_p3 zxcvbn []) = 0"
    "variety (scorePassword_p1 numberToString zxcvbn []) = 0"
    by (simp_all only: variety_scorePassword variety_scorePassword_p3 variety_scorePassword_p1
        variety_count_Nil)
  have e: "entropy (scorePassword zxcvbn []) = 0" "entropy (scorePassword_p3 zxcvbn []) = 0"
    using assms
    by (simp_all add: entropy_scorePassword entropy_scorePassword_p3 max_round_zero_iff)
  have m: "meterPercent (scorePassword zxcvbn []) = 0"
    using assms by (simp add: meterPercent_scorePassword meter_zero_iff)
  have m3: "meterPercent (scorePassword_p3 zxcvbn []) = 0"
    by (simp add: meterPercent_scorePassword_p3 meter_p3_no_input)
  have e1: "entropy (scorePassword_p1 numberToString zxcvbn []) = 0"
    by (simp add: scorePassword_p1_def)
  show ?thesis
    using v e m m3 e1 by (simp only: suggestion_empty)
qed

theorem C1_empty_password_witness:
  "guesses_log10 ((\<lambda>_. result_empty) []) = 0
   \<and> entropy (scorePassword (\<lambda>_. result_empty) []) = 0
   \<and> meterPercent (scorePassword (\<lambda>_. result_empty) []) = 0
   \<and> variety (scorePassword (\<lambda>_. result_empty) []) = 0
   \<and> suggestion (scorePassword (\<lambda>_. result_empty) [])
       = ''Type a password to see how strong it is!''"
proof -
  have h: "guesses_log10 ((\<lambda>_. result_empty) []) = 0"
    by (simp add: result_empty_def)
  show ?thesis
    using h C1_empty_password [of "\<lambda>_. result_empty", OF h] by simp
qed

subsection \<open>Suggestion\<close>






subsection \<open>Duration formatter\<close>

lemma formatDuration_examples:
  "formatDuration f (Fin 0) = ''almost instantly''"
  "formatDuration f (Fin (- 5)) = ''almost instantly''"
  "formatDuration f Infinity = ''almost instantly''"
  "formatDuration f NegInfinity = ''almost instantly''"
  "formatDuration f NaN = ''almost instantly''"
  "formatDuration f (Fin 1) = f 1 @ '' second''"
  "formatDuration f (Fin 120) = f 2 @ '' minutes''"
  by (simp_all add: formatDuration_def units_def Math_round_def)

lemma formatDuration_below_century:
  "s < 3153600000 \<Longrightarrow> formatDuration f (Fin s) = spec_formatDuration f (Fin s)"
  by (simp add: formatDuration_def spec_formatDuration_def units_def spec_ladder_def)

text \<open>
  Claim C6 at 100 years, 3153600000 seconds. The loop divides by the step of every entry
  it passes, the last one, 100 for "year", too: a value of 100 years or more leaves the
  loop divided by 100 and still named "year", so 100 years print as "1 year", where the
  ladder of the claim, which ends with 365 to years, gives "100 years". The same for
  \<open>2 ^ 77 / 10 ^ 10\<close> seconds, the crack time \<^verbatim>\<open>part_002\<close> computes from an entropy of
  78 bits (\<^verbatim>\<open>Math.pow(2, 78) / 1e10 / 2\<close>): 479185 years print as "4792 years".
\<close>

theorem C6_formatDuration_century:
  "formatDuration f (Fin 3153600000) = f 1 @ '' year''
   \<and> formatDuration_p1 f (Fin 3153600000) None = f 1 @ '' year''
   \<and> spec_formatDuration f (Fin 3153600000) = f 100 @ '' years''
   \<and> formatDuration f (Fin (2 ^ 77 / 10 ^ 10)) = f 4792 @ '' years''
   \<and> spec_formatDuration f (Fin (2 ^ 77 / 10 ^ 10)) = f 479185 @ '' years''"
  by (simp add: formatDuration_p1_def orElse_def formatDuration_def spec_formatDuration_def
      units_def spec_ladder_def Math_round_def)

end
